theory Spec2Isabelle
  imports Complex_Main "HOL-Library.Sublist"
begin

section \<open>The desktop browser window wrapper (desktop-browser-window.ts)\<close>

text \<open>
  The class \<open>DesktopBrowserWindow\<close> wires event handlers onto an Electron
  \<open>BrowserWindow\<close>. Each handler is embedded as a function from the wrapper's state to
  its new state and the list of calls it makes on its collaborators, in program order,
  followed by what the callbacks it attached to promises do after it has returned.
  What the collaborators answer (the URL parser, the safe-host predicate, the promises
  returned by script injection, ...) is not code of this class and is supplied by an
  environment record.
\<close>

subsection \<open>JavaScript values\<close>

text \<open>A thrown value or the reason of a rejected promise.\<close>

type_synonym js_error = string

text \<open>The settled state of a promise whose value is not used.\<close>

datatype promise = Resolved | Rejected js_error

text \<open>
  An optional property is \<open>None\<close> when it is \<open>undefined\<close>. Conditions on optional
  properties follow JavaScript truthiness: \<open>undefined\<close>, \<open>false\<close> and the empty string
  are falsy, every object is truthy. The operator \<open>??\<close> replaces \<open>undefined\<close> only.
\<close>

fun truthy_bool :: "bool option \<Rightarrow> bool" where
  "truthy_bool None = False"
| "truthy_bool (Some b) = b"

fun truthy_string :: "string option \<Rightarrow> bool" where
  "truthy_string None = False"
| "truthy_string (Some s) = (s \<noteq> [])"

fun truthy_object :: "'a option \<Rightarrow> bool" where
  "truthy_object None = False"
| "truthy_object (Some x) = True"

fun nullish :: "'a option \<Rightarrow> 'a \<Rightarrow> 'a" where
  "nullish None d = d"
| "nullish (Some x) d = x"

text \<open>\<open>Array.prototype.join\<close> and \<open>String.prototype.includes\<close>.\<close>

fun join :: "string \<Rightarrow> string list \<Rightarrow> string" where
  "join sep [] = []"
| "join sep [x] = x"
| "join sep (x # y # ys) = x @ sep @ join sep (y # ys)"

fun includes_str :: "string \<Rightarrow> string \<Rightarrow> bool" where
  "includes_str [] t = (t = [])"
| "includes_str (c # cs) t = (prefix t (c # cs) \<or> includes_str cs t)"

subsection \<open>Data model\<close>

text \<open>The two properties of a parsed \<open>URL\<close> object that the class reads.\<close>

record URL =
  hostname :: string
  host :: string

text \<open>
  \<open>WindowConstructorOptions\<close>. The parent wrapper, the opener's web contents and an
  adopted window are references; they are modelled by handles.
\<close>

record WindowConstructorOptions =
  showToolbar :: "bool option"
  adjustTitle :: "bool option"
  autohideMenu :: "bool option"
  name :: string
  baseUrl :: "string option"
  parent :: "nat option"
  opener :: "nat option"
  allowExternalNavigate :: "bool option"
  addApiKeys :: "string list option"
  existingWindow :: "nat option"

text \<open>The button list handed to the toolbar manager.\<close>

record ToolbarButton =
  tooltip :: string
  iconPath :: string
  onClick :: string

record ToolbarData =
  buttons :: "ToolbarButton list"

text \<open>The part of the new-window request that the window-open handler reads.\<close>

record HandlerDetails =
  url :: string
  disposition :: string

text \<open>The part of a keyboard input that the key handler reads.\<close>

record Input =
  meta :: bool
  key :: string

text \<open>
  What a window-open handler answers. The browser-window options that may accompany
  \<open>allow\<close> are chosen by the arbitration collaborator and are opaque here.
\<close>

datatype WindowOpenResponse = Deny | Allow nat

text \<open>
  The wrapper: its options, its window, the private flag \<open>failLoad\<close>, and whether the
  constructor attached a listener to the window's \<open>close\<close> event.
\<close>

record DesktopBrowserWindow =
  options :: WindowConstructorOptions
  window :: nat
  failLoad :: bool
  closeListener :: bool

subsection \<open>Collaborators\<close>

text \<open>
  The answers of everything the class calls but does not define: \<open>new URL\<close> (which
  throws on a malformed string), \<open>isSafeHost\<close> and \<open>executeJavaScript\<close> of the utilities
  module, the application state's \<open>windowOpening\<close>, the Electron shell and window, the
  toolbar manager, the context menu, the stored zoom level, \<open>path.join\<close>,
  \<open>String.prototype.toLowerCase\<close>, \<open>process.platform\<close> and the constants of the build.
\<close>

record env =
  newURL :: "string \<Rightarrow> js_error + URL"
  isSafeHost :: "string \<Rightarrow> bool"
  windowOpening :: WindowOpenResponse
  openExternal :: "string \<Rightarrow> promise"
  executeJavaScript :: "string \<Rightarrow> promise"
  createAndShowToolbar :: "ToolbarData \<Rightarrow> promise"
  insertCSS :: "string \<Rightarrow> promise"
  handleLocaleCookies :: promise
  getTitle :: string
  path_join :: "string list \<Rightarrow> string"
  dirname :: string
  MAIN_WINDOW_PRELOAD_WEBPACK_ENTRY :: "string option"
  newBrowserWindow :: nat
  platform :: string
  toLowerCase :: "string \<Rightarrow> string"
  zoomLevel :: real

text \<open>
  The calls a handler makes, as a trace. \<open>finishLoading\<close> is a public method that
  subclasses override, so a call to it is recorded with its argument before the effects
  of its body. A rejection that no \<open>catch\<close> handles is recorded as such.
\<close>

datatype effect =
    PreventDefault
  | LogError js_error
  | LogDebug string
  | ConsoleError string js_error
  | OpenExternal string
  | SetTitle string
  | ExecuteJavaScript string
  | CreateAndShowToolbar ToolbarData
  | CallWindowOpening
  | WindowCreated nat nat "string option"
  | CallFinishLoading bool
  | Emit string
  | NewBrowserWindow bool "string list" string
  | HandleLocaleCookies nat bool
  | InsertCSS string
  | ShowContextMenu nat
  | SetZoomFactor real
  | UnhandledRejection js_error

text \<open>
  \<open>p.catch(h)\<close> runs \<open>h\<close> on the reason of a rejected promise; \<open>void p\<close> drops \<open>p\<close>. A
  callback attached to a promise never runs while the handler that attached it is still
  running. So what a method does has two parts: the calls it makes while it runs, and
  the effects of its callbacks afterwards. \<open>andThen\<close> is one method body followed by
  another; \<open>settled\<close> is the trace of a handler once its callbacks have run, the callbacks
  in the order they were attached. How the callbacks of one event interleave with later
  events is not modelled.
\<close>

type_synonym reaction = "effect list \<times> effect list"

definition andThen :: "reaction \<Rightarrow> reaction \<Rightarrow> reaction" where
  "andThen a b = (fst a @ fst b, snd a @ snd b)"

definition settled :: "reaction \<Rightarrow> effect list" where
  "settled r = fst r @ snd r"

fun catch :: "promise \<Rightarrow> (js_error \<Rightarrow> effect list) \<Rightarrow> effect list" where
  "catch Resolved h = []"
| "catch (Rejected err) h = h err"

fun void :: "promise \<Rightarrow> effect list" where
  "void Resolved = []"
| "void (Rejected err) = [UnhandledRejection err]"

subsection \<open>Navigation policy: the \<open>will-navigate\<close> handler\<close>

definition will_navigate :: "env \<Rightarrow> DesktopBrowserWindow \<Rightarrow> string \<Rightarrow> effect list" where
  "will_navigate e w u =
     (case newURL e u of
        Inl err \<Rightarrow> [LogError err, PreventDefault]
      | Inr targetUrl \<Rightarrow>
          (let h = hostname targetUrl;
               isLocal = (h = ''localhost'' \<or> h = ''127.0.0.1'' \<or> h = ''::1'')
           in if isLocal then []
              else if \<not> truthy_bool (allowExternalNavigate (options w)) then
                (case newURL e u of
                   Inl err \<Rightarrow> [LogError err, PreventDefault]
                 | Inr targetUrl' \<Rightarrow>
                     if \<not> isSafeHost e (host targetUrl')
                     then [PreventDefault, OpenExternal u] @ void (openExternal e u)
                     else [])
              else []))"

subsection \<open>New-window requests: the window-open handler\<close>

definition windowOpenHandler ::
  "env \<Rightarrow> DesktopBrowserWindow \<Rightarrow> HandlerDetails \<Rightarrow> WindowOpenResponse \<times> effect list" where
  "windowOpenHandler e w details =
     (if truthy_string (baseUrl (options w)) \<and>
         (disposition details = ''foreground-tab'' \<or> disposition details = ''background-tab'')
      then (Deny, [OpenExternal (url details)] @ void (openExternal e (url details)))
      else (windowOpening e, [CallWindowOpening]))"

definition did_create_window :: "DesktopBrowserWindow \<Rightarrow> nat \<Rightarrow> effect list" where
  "did_create_window w newWindow = [WindowCreated newWindow (window w) (baseUrl (options w))]"

subsection \<open>Title synchronisation\<close>

definition adjustWindowTitle :: "DesktopBrowserWindow \<Rightarrow> string \<Rightarrow> bool \<Rightarrow> effect list" where
  "adjustWindowTitle w title explicitSet =
     (if truthy_bool (adjustTitle (options w)) \<and> explicitSet then [SetTitle title] else [])"

definition syncWindowTitle :: "env \<Rightarrow> DesktopBrowserWindow \<Rightarrow> effect list" where
  "syncWindowTitle e w =
     (if truthy_bool (adjustTitle (options w)) then [SetTitle (getTitle e)] else [])"

text \<open>
  The title of the window chrome after a trace, given the title before it: only
  \<open>setTitle\<close> changes it.
\<close>

fun chromeTitle :: "string \<Rightarrow> effect list \<Rightarrow> string" where
  "chromeTitle t [] = t"
| "chromeTitle t (SetTitle t' # es) = chromeTitle t' es"
| "chromeTitle t (x # es) = chromeTitle t es"

subsection \<open>Script injection\<close>

text \<open>
  The scripts are template literals that span two source lines: the line break and the
  indentation of the second line are part of the string.
\<close>

definition spaces :: "nat \<Rightarrow> string" where
  "spaces n = replicate n (CHR '' '')"

definition newline :: string where
  "newline = [CHR 0x0A]"

definition quote :: string where
  "quote = [CHR 0x27]"

definition registerCmd :: "string \<Rightarrow> string" where
  "registerCmd nm =
     ''if (window.opener && window.opener.registerDesktopChildWindow)'' @ newline @ spaces 9 @
     ''window.opener.registerDesktopChildWindow('' @ quote @ nm @ quote @ '', window);''"

definition unregisterViaOpenerCmd :: "string \<Rightarrow> string" where
  "unregisterViaOpenerCmd nm =
     ''if (window.opener && window.opener.unregisterDesktopChildWindow)'' @ newline @ spaces 11 @
     ''window.opener.unregisterDesktopChildWindow('' @ quote @ nm @ quote @ '');''"

definition unregisterCmd :: "string \<Rightarrow> string" where
  "unregisterCmd nm =
     ''if (window.unregisterDesktopChildWindow)'' @ newline @ spaces 11 @
     ''window.unregisterDesktopChildWindow('' @ quote @ nm @ quote @ '');''"

text \<open>
  The method \<open>executeJavaScript\<close> is \<open>async\<close>: whatever goes wrong inside it rejects the
  promise it returns, and every call in the class attaches a \<open>catch\<close> that logs.
\<close>

definition inject :: "env \<Rightarrow> string \<Rightarrow> reaction" where
  "inject e cmd =
     ([ExecuteJavaScript cmd], catch (executeJavaScript e cmd) (\<lambda>err. [LogError err]))"

subsection \<open>Load completion and failure\<close>

definition finishLoading :: "env \<Rightarrow> DesktopBrowserWindow \<Rightarrow> bool \<Rightarrow> reaction" where
  "finishLoading e w succeeded =
     (if succeeded
      then andThen (syncWindowTitle e w, []) (inject e (registerCmd (name (options w))))
      else ([], []))"

definition toolbarData :: "env \<Rightarrow> ToolbarData" where
  "toolbarData e = \<lparr>buttons =
     [\<lparr>tooltip = ''Go Back'',
       iconPath = path_join e [dirname e, ''assets'', ''img'', ''back.png''],
       onClick = ''()=> {'' @ newline @ spaces 16 @ ''history.back();'' @ newline @
                 spaces 14 @ ''}''\<rparr>,
      \<lparr>tooltip = ''Go Forward'',
       iconPath = path_join e [dirname e, ''assets'', ''img'', ''forward.png''],
       onClick = ''()=> {'' @ newline @ spaces 16 @ ''history.forward();'' @ newline @
                 spaces 14 @ ''}''\<rparr>,
      \<lparr>tooltip = ''Refresh Page'',
       iconPath = path_join e [dirname e, ''assets'', ''img'', ''reload.png''],
       onClick = ''()=> {'' @ newline @ spaces 16 @ ''window.location.reload();'' @ newline @
                 spaces 14 @ ''}''\<rparr>]\<rparr>"

definition showToolbarEffects :: "env \<Rightarrow> DesktopBrowserWindow \<Rightarrow> reaction" where
  "showToolbarEffects e w =
     (if truthy_bool (showToolbar (options w))
      then ([CreateAndShowToolbar (toolbarData e)],
            catch (createAndShowToolbar e (toolbarData e))
              (\<lambda>err. [ConsoleError ''Error when trying to add Secondary Window toolbar'' err]))
      else ([], []))"

definition did_finish_load ::
  "env \<Rightarrow> DesktopBrowserWindow \<Rightarrow> DesktopBrowserWindow \<times> effect list" where
  "did_finish_load e w =
     (if \<not> failLoad w
      then (w, settled (andThen (showToolbarEffects e w)
                 (andThen ([CallFinishLoading True], []) (finishLoading e w True))))
      else (w\<lparr>failLoad := False\<rparr>, settled (showToolbarEffects e w)))"

definition did_fail_load ::
  "env \<Rightarrow> DesktopBrowserWindow \<Rightarrow> DesktopBrowserWindow \<times> effect list" where
  "did_fail_load e w =
     (let w' = w\<lparr>failLoad := True\<rparr>
      in (w', settled (andThen ([CallFinishLoading False], []) (finishLoading e w' False))))"

subsection \<open>Closing\<close>

definition closeEvent :: "env \<Rightarrow> DesktopBrowserWindow \<Rightarrow> reaction" where
  "closeEvent e w =
     (if \<not> truthy_object (opener (options w))
      then inject e (unregisterViaOpenerCmd (name (options w)))
      else inject e (unregisterCmd (name (options w))))"

definition WINDOW_DESTROYED :: string where
  "WINDOW_DESTROYED = ''desktop-browser-window_destroyed''"

subsection \<open>Keyboard input\<close>

definition CLOSE_WINDOW_SHORTCUT :: string where
  "CLOSE_WINDOW_SHORTCUT = ''desktop-browser-close_window_shortcut''"

definition keyPressEvent :: "env \<Rightarrow> Input \<Rightarrow> effect list" where
  "keyPressEvent e input =
     (if platform e = ''darwin''
      then (if meta input \<and> toLowerCase e (key input) = ''w''
            then [Emit CLOSE_WINDOW_SHORTCUT]
            else [])
      else [])"

subsection \<open>The constructor\<close>

definition getPreload :: "env \<Rightarrow> string" where
  "getPreload e =
     (case MAIN_WINDOW_PRELOAD_WEBPACK_ENTRY e of
        Some entry \<Rightarrow> entry
      | None \<Rightarrow> path_join e [dirname e, ''../renderer/preload.js''])"

definition customStyles :: string where
  "customStyles =
     ''.gwt-SplitLayoutPanel-HDragger{cursor:ew-resize !important;} '' @
     ''.gwt-SplitLayoutPanel-VDragger{cursor:ns-resize !important;}''"

definition defaults :: "WindowConstructorOptions \<Rightarrow> WindowConstructorOptions" where
  "defaults opts = opts
     \<lparr>showToolbar := Some (nullish (showToolbar opts) False),
      adjustTitle := Some (nullish (adjustTitle opts) False),
      autohideMenu := Some (nullish (autohideMenu opts) False),
      allowExternalNavigate := Some (nullish (allowExternalNavigate opts) False)\<rparr>"

definition apiKeys :: "WindowConstructorOptions \<Rightarrow> string list" where
  "apiKeys opts = [join ''|'' (''--api-keys=desktopInfo'' # nullish (addApiKeys opts) [])]"

definition createWindow :: "env \<Rightarrow> WindowConstructorOptions \<Rightarrow> nat \<times> effect list" where
  "createWindow e opts =
     (case existingWindow opts of
        Some existing \<Rightarrow> (existing, [])
      | None \<Rightarrow>
          (newBrowserWindow e,
           settled
             ([NewBrowserWindow (truthy_bool (autohideMenu opts)) (apiKeys opts) (getPreload e),
               HandleLocaleCookies (newBrowserWindow e) True,
               InsertCSS customStyles],
              void (handleLocaleCookies e) @
              (case insertCSS e customStyles of
                 Resolved \<Rightarrow> [LogDebug ''Custom Styles Added Successfully'']
               | Rejected err \<Rightarrow> [LogError err]))))"

definition constructor ::
  "env \<Rightarrow> WindowConstructorOptions \<Rightarrow> DesktopBrowserWindow \<times> effect list" where
  "constructor e opts0 =
     (let opts = defaults opts0;
          (win, created) = createWindow e opts
      in (\<lparr>options = opts, window = win, failLoad = False,
           closeListener = (\<not> includes_str (name opts) ''satellite'')\<rparr>,
          created))"

subsection \<open>Events\<close>

text \<open>
  The events and requests that the constructor attaches a handler to, in the order it
  does. Each arrives with the environment that answers the handler's calls. The
  parameters of a context menu are passed on unread and are a handle here.
\<close>

datatype event =
    ContextMenu nat
  | BeforeInput Input
  | WindowOpen HandlerDetails
  | DidCreateWindow nat
  | WillNavigate string
  | PageTitleUpdated string bool
  | DidFinishLoad
  | DidFailLoad
  | Close
  | Closed
  | ReadyToShow

fun step :: "env \<Rightarrow> DesktopBrowserWindow \<Rightarrow> event \<Rightarrow> DesktopBrowserWindow \<times> effect list" where
  "step e w (ContextMenu params) = (w, [ShowContextMenu params])"
| "step e w (BeforeInput input) = (w, keyPressEvent e input)"
| "step e w (WindowOpen details) = (w, snd (windowOpenHandler e w details))"
| "step e w (DidCreateWindow newWindow) = (w, did_create_window w newWindow)"
| "step e w (WillNavigate u) = (w, will_navigate e w u)"
| "step e w (PageTitleUpdated title explicitSet) = (w, adjustWindowTitle w title explicitSet)"
| "step e w DidFinishLoad = did_finish_load e w"
| "step e w DidFailLoad = did_fail_load e w"
| "step e w Close = (w, if closeListener w then settled (closeEvent e w) else [])"
| "step e w Closed = (w, [Emit WINDOW_DESTROYED])"
| "step e w ReadyToShow = (w, [SetZoomFactor (zoomLevel e)])"

fun run ::
  "DesktopBrowserWindow \<Rightarrow> (env \<times> event) list \<Rightarrow> DesktopBrowserWindow \<times> effect list" where
  "run w [] = (w, [])"
| "run w ((e, ev) # evs) =
     (let (w', tr) = step e w ev;
          (w'', tr') = run w' evs
      in (w'', tr @ tr'))"

text \<open>The arguments of the calls to \<open>finishLoading\<close> and to the external browser in a trace.\<close>

fun finishCalls :: "effect list \<Rightarrow> bool list" where
  "finishCalls [] = []"
| "finishCalls (CallFinishLoading b # es) = b # finishCalls es"
| "finishCalls (x # es) = finishCalls es"

fun externalOpens :: "effect list \<Rightarrow> string list" where
  "externalOpens [] = []"
| "externalOpens (OpenExternal u # es) = u # externalOpens es"
| "externalOpens (x # es) = externalOpens es"

fun injectedScripts :: "effect list \<Rightarrow> string list" where
  "injectedScripts [] = []"
| "injectedScripts (ExecuteJavaScript cmd # es) = cmd # injectedScripts es"
| "injectedScripts (x # es) = injectedScripts es"

subsection \<open>A concrete environment\<close>

text \<open>
  A small environment on which the handlers can be run: four URLs with the host names
  their parse gives, every other string taken as malformed; one safe host; script
  injection that fails; lower-casing of the one key name the key handler looks for;
  joining of path segments that need no normalising.
  The class imports \<open>URL\<close> from Node's \<open>url\<close> module, which follows the WHATWG URL
  standard: the host of a URL with an IPv6 address is serialised in square brackets, so
  \<open>hostname\<close> of \<open>http://[::1]:8787/\<close> is \<open>[::1]\<close> and its \<open>host\<close> is \<open>[::1]:8787\<close>.
\<close>

definition exampleURL :: "string \<Rightarrow> js_error + URL" where
  "exampleURL u =
     (if u = ''http://localhost:8787/''
      then Inr \<lparr>hostname = ''localhost'', host = ''localhost:8787''\<rparr>
      else if u = ''http://127.0.0.1:8787/help/''
      then Inr \<lparr>hostname = ''127.0.0.1'', host = ''127.0.0.1:8787''\<rparr>
      else if u = ''http://[::1]:8787/''
      then Inr \<lparr>hostname = ''[::1]'', host = ''[::1]:8787''\<rparr>
      else if u = ''https://example.com/docs''
      then Inr \<lparr>hostname = ''example.com'', host = ''example.com''\<rparr>
      else Inl ''TypeError: Invalid URL'')"

definition exampleEnv :: env where
  "exampleEnv =
     \<lparr>newURL = exampleURL,
      isSafeHost = (\<lambda>h. h = ''www.youtube.com''),
      windowOpening = Allow 0,
      openExternal = (\<lambda>u. Resolved),
      executeJavaScript = (\<lambda>cmd. Rejected ''Error: Object has been destroyed''),
      createAndShowToolbar = (\<lambda>d. Resolved),
      insertCSS = (\<lambda>css. Resolved),
      handleLocaleCookies = Resolved,
      getTitle = ''RStudio'',
      path_join = join ''/'',
      dirname = ''/app'',
      MAIN_WINDOW_PRELOAD_WEBPACK_ENTRY = Some ''/app/.webpack/renderer/main_window/preload.js'',
      newBrowserWindow = 1,
      platform = ''darwin'',
      toLowerCase = (\<lambda>s. if s = ''W'' then ''w'' else s),
      zoomLevel = 1\<rparr>"

definition exampleOptions :: "string \<Rightarrow> WindowConstructorOptions" where
  "exampleOptions nm =
     \<lparr>showToolbar = None, adjustTitle = None, autohideMenu = None, name = nm,
      baseUrl = None, parent = None, opener = None, allowExternalNavigate = None,
      addApiKeys = None, existingWindow = None\<rparr>"

definition exampleWindow :: "WindowConstructorOptions \<Rightarrow> DesktopBrowserWindow" where
  "exampleWindow opts = fst (constructor exampleEnv opts)"

section \<open>Properties\<close>

subsection \<open>Traces\<close>

lemma finishCalls_append: "finishCalls (a @ b) = finishCalls a @ finishCalls b"
  by (induction a rule: finishCalls.induct) simp_all

lemma injectedScripts_append: "injectedScripts (a @ b) = injectedScripts a @ injectedScripts b"
  by (induction a rule: injectedScripts.induct) simp_all

lemma void_trace:
  "finishCalls (void p) = [] \<and> injectedScripts (void p) = [] \<and> externalOpens (void p) = [] \<and>
   CallWindowOpening \<notin> set (void p) \<and> PreventDefault \<notin> set (void p)"
  by (cases p) simp_all

lemma inject_trace:
  "fst (inject e cmd) = [ExecuteJavaScript cmd] \<and>
   finishCalls (snd (inject e cmd)) = [] \<and>
   injectedScripts (snd (inject e cmd)) = [] \<and>
   PreventDefault \<notin> set (snd (inject e cmd)) \<and>
   (\<forall>err. UnhandledRejection err \<notin> set (snd (inject e cmd))) \<and>
   (\<forall>err. executeJavaScript e cmd = Rejected err \<longrightarrow> LogError err \<in> set (snd (inject e cmd)))"
  by (cases "executeJavaScript e cmd") (simp_all add: inject_def)

lemma showToolbarEffects_trace:
  "finishCalls (fst (showToolbarEffects e w)) = [] \<and>
   finishCalls (snd (showToolbarEffects e w)) = [] \<and>
   injectedScripts (fst (showToolbarEffects e w)) = [] \<and>
   injectedScripts (snd (showToolbarEffects e w)) = []"
  by (cases "createAndShowToolbar e (toolbarData e)") (simp_all add: showToolbarEffects_def)

lemma will_navigate_trace:
  "finishCalls (will_navigate e w u) = [] \<and> injectedScripts (will_navigate e w u) = []"
  by (simp add: will_navigate_def Let_def void_trace split: sum.splits)

lemma finishLoading_trace:
  "finishCalls (fst (finishLoading e w b)) = [] \<and>
   finishCalls (snd (finishLoading e w b)) = [] \<and>
   set (injectedScripts (fst (finishLoading e w b))) \<subseteq> {registerCmd (name (options w))} \<and>
   injectedScripts (snd (finishLoading e w b)) = []"
  by (simp add: finishLoading_def andThen_def syncWindowTitle_def finishCalls_append
      injectedScripts_append inject_trace)

subsection \<open>The fail flag\<close>

lemma did_fail_load_calls:
  "failLoad (fst (did_fail_load e w)) \<and> finishCalls (snd (did_fail_load e w)) = [False]"
  by (simp add: did_fail_load_def Let_def settled_def andThen_def finishCalls_append
      finishLoading_trace)

lemma did_finish_load_after_failure:
  "failLoad w \<Longrightarrow>
     \<not> failLoad (fst (did_finish_load e w)) \<and> finishCalls (snd (did_finish_load e w)) = []"
  by (simp add: did_finish_load_def settled_def finishCalls_append showToolbarEffects_trace)

lemma did_finish_load_success:
  "\<not> failLoad w \<Longrightarrow>
     \<not> failLoad (fst (did_finish_load e w)) \<and> finishCalls (snd (did_finish_load e w)) = [True]"
  by (simp add: did_finish_load_def settled_def andThen_def finishCalls_append
      showToolbarEffects_trace finishLoading_trace)

lemma step_other_failLoad:
  assumes "ev \<noteq> DidFailLoad" and "ev \<noteq> DidFinishLoad"
  shows "failLoad (fst (step e w ev)) = failLoad w \<and> finishCalls (snd (step e w ev)) = []"
proof (cases ev)
  case (WindowOpen d)
  then show ?thesis by (simp add: windowOpenHandler_def void_trace)
next
  case Close
  then show ?thesis
    by (simp add: closeEvent_def settled_def finishCalls_append inject_trace)
qed (use assms in \<open>simp_all add: did_create_window_def will_navigate_trace
      adjustWindowTitle_def keyPressEvent_def\<close>)

lemma run_other_failLoad:
  assumes "\<forall>x \<in> set evs. snd x \<noteq> DidFailLoad \<and> snd x \<noteq> DidFinishLoad"
  shows "failLoad (fst (run w evs)) = failLoad w \<and> finishCalls (snd (run w evs)) = []"
  using assms
proof (induction evs arbitrary: w)
  case Nil
  then show ?case by simp
next
  case (Cons x evs)
  obtain e ev where x: "x = (e, ev)" by (cases x)
  from Cons.prems x have ev: "ev \<noteq> DidFailLoad" "ev \<noteq> DidFinishLoad" by simp_all
  from Cons.prems have rest: "\<forall>x \<in> set evs. snd x \<noteq> DidFailLoad \<and> snd x \<noteq> DidFinishLoad"
    by simp
  show ?case
    using step_other_failLoad [OF ev, of e w] Cons.IH [OF rest, of "fst (step e w ev)"]
    by (simp add: x split_beta finishCalls_append)
qed

subsection \<open>What no event changes\<close>

lemma step_keeps:
  "options (fst (step e w ev)) = options w \<and> closeListener (fst (step e w ev)) = closeListener w"
  by (cases ev) (simp_all add: did_finish_load_def did_fail_load_def Let_def)

lemma run_keeps:
  "options (fst (run w evs)) = options w \<and> closeListener (fst (run w evs)) = closeListener w"
proof (induction evs arbitrary: w)
  case Nil
  then show ?case by simp
next
  case (Cons x evs)
  obtain e ev where x: "x = (e, ev)" by (cases x)
  show ?case
    using step_keeps [of e w ev] Cons.IH [of "fst (step e w ev)"]
    by (simp add: x split_beta)
qed

lemma constructor_fields:
  "options (fst (constructor e opts)) = defaults opts \<and>
   \<not> failLoad (fst (constructor e opts)) \<and>
   closeListener (fst (constructor e opts)) = (\<not> includes_str (name opts) ''satellite'')"
  by (simp add: constructor_def Let_def split_beta defaults_def)

lemma defaults_keeps:
  "name (defaults opts) = name opts \<and> opener (defaults opts) = opener opts \<and>
   baseUrl (defaults opts) = baseUrl opts"
  by (simp add: defaults_def)

subsection \<open>Scripts injected without a close listener\<close>

lemma step_scripts_no_listener:
  assumes "\<not> closeListener w"
  shows "set (injectedScripts (snd (step e w ev))) \<subseteq> {registerCmd (name (options w))}"
proof (cases ev)
  case (WindowOpen d)
  then show ?thesis by (simp add: windowOpenHandler_def void_trace)
next
  case DidFinishLoad
  then show ?thesis
    using finishLoading_trace [of e w True]
    by (simp add: did_finish_load_def settled_def andThen_def injectedScripts_append
        showToolbarEffects_trace)
next
  case DidFailLoad
  then show ?thesis
    by (simp add: did_fail_load_def Let_def finishLoading_def settled_def andThen_def)
qed (use assms in \<open>simp_all add: did_create_window_def will_navigate_trace
      adjustWindowTitle_def keyPressEvent_def\<close>)

lemma run_scripts_no_listener:
  assumes "\<not> closeListener w"
  shows "set (injectedScripts (snd (run w evs))) \<subseteq> {registerCmd (name (options w))}"
  using assms
proof (induction evs arbitrary: w)
  case Nil
  then show ?case by simp
next
  case (Cons x evs)
  obtain e ev where x: "x = (e, ev)" by (cases x)
  have k: "\<not> closeListener (fst (step e w ev))" "options (fst (step e w ev)) = options w"
    using step_keeps [of e w ev] Cons.prems by simp_all
  show ?case
    using step_scripts_no_listener [OF Cons.prems, of e ev] Cons.IH [OF k(1)] k(2)
    by (simp add: x split_beta injectedScripts_append)
qed

lemma registerCmd_neq:
  "registerCmd a \<noteq> unregisterViaOpenerCmd b" "registerCmd a \<noteq> unregisterCmd b"
  by (simp_all add: registerCmd_def unregisterViaOpenerCmd_def unregisterCmd_def)

subsection \<open>The concrete environment\<close>

lemma exampleWindow_fields:
  "options (exampleWindow opts) = defaults opts"
  "failLoad (exampleWindow opts) = False"
  "closeListener (exampleWindow opts) = (\<not> includes_str (name opts) ''satellite'')"
  using constructor_fields [of exampleEnv opts] by (simp_all add: exampleWindow_def)

lemmas example_simps =
  exampleWindow_fields exampleEnv_def exampleURL_def exampleOptions_def defaults_def

section \<open>Navigation policy\<close>

text \<open>
  C1. When external navigation is not allowed, the requested URL parses, its host name is
  none of \<open>localhost\<close>, \<open>127.0.0.1\<close>, \<open>::1\<close>, and the safe-host predicate rejects the
  URL's host, the handler vetoes the navigation (\<open>preventDefault\<close>) and asks the shell
  exactly once to open a URL externally, namely the requested URL string itself.
\<close>

theorem will_navigate_opens_external:
  assumes "\<not> truthy_bool (allowExternalNavigate (options w))"
    and "newURL e u = Inr target"
    and "hostname target \<notin> {''localhost'', ''127.0.0.1'', ''::1''}"
    and "\<not> isSafeHost e (host target)"
  shows "will_navigate e w u = [PreventDefault, OpenExternal u] @ void (openExternal e u) \<and>
         PreventDefault \<in> set (will_navigate e w u) \<and>
         externalOpens (will_navigate e w u) = [u]"
proof -
  have "will_navigate e w u = [PreventDefault, OpenExternal u] @ void (openExternal e u)"
    using assms by (simp add: will_navigate_def)
  then show ?thesis by (simp add: void_trace)
qed

theorem will_navigate_opens_external_witness:
  "\<not> truthy_bool (allowExternalNavigate (options (exampleWindow (exampleOptions ''viewer'')))) \<and>
   newURL exampleEnv ''https://example.com/docs'' =
     Inr \<lparr>hostname = ''example.com'', host = ''example.com''\<rparr> \<and>
   ''example.com'' \<notin> {''localhost'', ''127.0.0.1'', ''::1''} \<and>
   \<not> isSafeHost exampleEnv ''example.com'' \<and>
   will_navigate exampleEnv (exampleWindow (exampleOptions ''viewer'')) ''https://example.com/docs''
     = [PreventDefault, OpenExternal ''https://example.com/docs''] \<and>
   externalOpens
     (will_navigate exampleEnv (exampleWindow (exampleOptions ''viewer''))
        ''https://example.com/docs'') = [''https://example.com/docs'']"
proof -
  let ?w = "exampleWindow (exampleOptions ''viewer'')"
  let ?t = "\<lparr>hostname = ''example.com'', host = ''example.com''\<rparr>"
  have 1: "\<not> truthy_bool (allowExternalNavigate (options ?w))"
    by (simp add: example_simps)
  have 2: "newURL exampleEnv ''https://example.com/docs'' = Inr ?t"
    by (simp add: example_simps)
  have 3: "hostname ?t \<notin> {''localhost'', ''127.0.0.1'', ''::1''}"
    by simp
  have 4: "\<not> isSafeHost exampleEnv (host ?t)"
    by (simp add: example_simps)
  have 5: "void (openExternal exampleEnv ''https://example.com/docs'') = []"
    by (simp add: example_simps)
  show ?thesis
    using 1 2 3 4 will_navigate_opens_external [OF 1 2 3 4] by (simp add: 5)
qed

text \<open>
  C2. Navigation to a URL whose host is \<open>localhost\<close>, \<open>127.0.0.1\<close> or the IPv6 loopback
  \<open>::1\<close> is to go on in place, whatever \<open>allowExternalNavigate\<close> is. The handler compares
  the parsed host name with the three literals \<open>localhost\<close>, \<open>127.0.0.1\<close> and \<open>::1\<close>. The
  host name of a URL with an IPv6 address comes in square brackets, so the third literal
  never matches it: on a wrapper that does not allow external navigation, the handler
  vetoes the navigation to \<open>http://[::1]:8787/\<close> and opens it in the external browser,
  where for \<open>http://127.0.0.1:8787/help/\<close> it does nothing.
\<close>

theorem will_navigate_ipv6_loopback_vetoed:
  "newURL exampleEnv ''http://[::1]:8787/'' =
     Inr \<lparr>hostname = ''[::1]'', host = ''[::1]:8787''\<rparr> \<and>
   will_navigate exampleEnv (exampleWindow (exampleOptions ''viewer'')) ''http://[::1]:8787/'' =
     [PreventDefault, OpenExternal ''http://[::1]:8787/''] \<and>
   will_navigate exampleEnv (exampleWindow (exampleOptions ''viewer''))
     ''http://127.0.0.1:8787/help/'' = []"
  by (simp add: will_navigate_def example_simps)

text \<open>
  C3. When the requested URL string does not parse, the handler logs the error thrown by
  the parser and vetoes the navigation; it makes no other call, so no external browser
  is opened.
\<close>

theorem will_navigate_malformed_vetoed:
  assumes "newURL e u = Inl err"
  shows "will_navigate e w u = [LogError err, PreventDefault] \<and>
         externalOpens (will_navigate e w u) = []"
  using assms by (simp add: will_navigate_def)

theorem will_navigate_malformed_vetoed_witness:
  "newURL exampleEnv ''not a url'' = Inl ''TypeError: Invalid URL'' \<and>
   will_navigate exampleEnv (exampleWindow (exampleOptions ''viewer'')) ''not a url'' =
     [LogError ''TypeError: Invalid URL'', PreventDefault] \<and>
   externalOpens (will_navigate exampleEnv (exampleWindow (exampleOptions ''viewer''))
     ''not a url'') = []"
proof -
  have 1: "newURL exampleEnv ''not a url'' = Inl ''TypeError: Invalid URL''"
    by (simp add: example_simps)
  show ?thesis
    using 1 will_navigate_malformed_vetoed [OF 1, of "exampleWindow (exampleOptions ''viewer'')"]
    by simp
qed

text \<open>
  C4. When external navigation is allowed and the requested URL parses to a host name
  other than \<open>localhost\<close>, \<open>127.0.0.1\<close> and \<open>::1\<close>, the handler does nothing: the
  navigation proceeds in place and no external browser is opened.
\<close>

theorem will_navigate_allowed_proceeds:
  assumes "truthy_bool (allowExternalNavigate (options w))"
    and "newURL e u = Inr target"
    and "hostname target \<notin> {''localhost'', ''127.0.0.1'', ''::1''}"
  shows "will_navigate e w u = []"
  using assms by (simp add: will_navigate_def)

theorem will_navigate_allowed_proceeds_witness:
  "truthy_bool (allowExternalNavigate (options
     (exampleWindow ((exampleOptions ''viewer'')\<lparr>allowExternalNavigate := Some True\<rparr>)))) \<and>
   newURL exampleEnv ''https://example.com/docs'' =
     Inr \<lparr>hostname = ''example.com'', host = ''example.com''\<rparr> \<and>
   ''example.com'' \<notin> {''localhost'', ''127.0.0.1'', ''::1''} \<and>
   will_navigate exampleEnv
     (exampleWindow ((exampleOptions ''viewer'')\<lparr>allowExternalNavigate := Some True\<rparr>))
     ''https://example.com/docs'' = []"
proof -
  let ?w = "exampleWindow ((exampleOptions ''viewer'')\<lparr>allowExternalNavigate := Some True\<rparr>)"
  let ?t = "\<lparr>hostname = ''example.com'', host = ''example.com''\<rparr>"
  have 1: "truthy_bool (allowExternalNavigate (options ?w))"
    by (simp add: example_simps)
  have 2: "newURL exampleEnv ''https://example.com/docs'' = Inr ?t"
    by (simp add: example_simps)
  have 3: "hostname ?t \<notin> {''localhost'', ''127.0.0.1'', ''::1''}"
    by simp
  show ?thesis
    using 1 2 3 will_navigate_allowed_proceeds [OF 1 2 3] by simp
qed

section \<open>Load completion and failure\<close>

text \<open>
  C5. From any state of a wrapper: a load-failure event sets the fail flag and calls
  \<open>finishLoading\<close> once, with \<open>false\<close>; the load-finished event that follows clears the
  flag and does not call \<open>finishLoading\<close>; after any further events that are neither a
  load failure nor a load-finished event (none of which calls \<open>finishLoading\<close> or sets
  the flag), the next load-finished event calls \<open>finishLoading\<close> once, with \<open>true\<close>.
\<close>

theorem load_failure_reported_once:
  assumes "\<forall>x \<in> set mid. snd x \<noteq> DidFailLoad \<and> snd x \<noteq> DidFinishLoad"
  shows "let (w1, t1) = step e1 w DidFailLoad;
             (w2, t2) = step e2 w1 DidFinishLoad;
             (w3, t3) = run w2 mid;
             (w4, t4) = step e3 w3 DidFinishLoad
         in failLoad w1 \<and> finishCalls t1 = [False] \<and>
            \<not> failLoad w2 \<and> finishCalls t2 = [] \<and>
            \<not> failLoad w3 \<and> finishCalls t3 = [] \<and>
            \<not> failLoad w4 \<and> finishCalls t4 = [True]"
proof -
  define w1 where "w1 = fst (step e1 w DidFailLoad)"
  define w2 where "w2 = fst (step e2 w1 DidFinishLoad)"
  define w3 where "w3 = fst (run w2 mid)"
  have 1: "failLoad w1" "finishCalls (snd (step e1 w DidFailLoad)) = [False]"
    using did_fail_load_calls [of e1 w] by (simp_all add: w1_def)
  have 2: "\<not> failLoad w2" "finishCalls (snd (step e2 w1 DidFinishLoad)) = []"
    using did_finish_load_after_failure [OF 1(1), of e2] by (simp_all add: w2_def)
  have 3: "\<not> failLoad w3" "finishCalls (snd (run w2 mid)) = []"
    using run_other_failLoad [OF assms, of w2] 2(1) by (simp_all add: w3_def)
  have 4: "\<not> failLoad (fst (step e3 w3 DidFinishLoad))"
    "finishCalls (snd (step e3 w3 DidFinishLoad)) = [True]"
    using did_finish_load_success [OF 3(1), of e3] by simp_all
  from 1 2 3 4 show ?thesis
    unfolding w1_def w2_def w3_def by (simp add: split_beta)
qed

theorem load_failure_reported_once_witness:
  "list_all (\<lambda>x. snd x \<noteq> DidFailLoad \<and> snd x \<noteq> DidFinishLoad)
     [(exampleEnv, PageTitleUpdated ''Help'' True), (exampleEnv, Close)] \<and>
   (let (w1, t1) = step exampleEnv (exampleWindow (exampleOptions ''viewer'')) DidFailLoad;
        (w2, t2) = step exampleEnv w1 DidFinishLoad;
        (w3, t3) = run w2 [(exampleEnv, PageTitleUpdated ''Help'' True), (exampleEnv, Close)];
        (w4, t4) = step exampleEnv w3 DidFinishLoad
    in failLoad w1 \<and> finishCalls t1 = [False] \<and>
       \<not> failLoad w2 \<and> finishCalls t2 = [] \<and>
       \<not> failLoad w3 \<and> finishCalls t3 = [] \<and>
       \<not> failLoad w4 \<and> finishCalls t4 = [True])"
proof -
  have h: "\<forall>x \<in> set [(exampleEnv, PageTitleUpdated ''Help'' True), (exampleEnv, Close)].
      snd x \<noteq> DidFailLoad \<and> snd x \<noteq> DidFinishLoad"
    by simp
  have l: "list_all (\<lambda>x. snd x \<noteq> DidFailLoad \<and> snd x \<noteq> DidFinishLoad)
     [(exampleEnv, PageTitleUpdated ''Help'' True), (exampleEnv, Close)]"
    by simp
  show ?thesis
    by (rule conjI [OF l load_failure_reported_once [OF h]])
qed

text \<open>
  C10. When \<open>showToolbar\<close> is set, every load-finished event starts by asking the toolbar
  manager to create the toolbar, whatever the fail flag is: also when the flag is set,
  where the event only clears the flag and \<open>finishLoading\<close> is not called.
\<close>

theorem toolbar_created_on_every_finish:
  assumes "truthy_bool (showToolbar (options w))"
  shows "take 1 (snd (step e w DidFinishLoad)) = [CreateAndShowToolbar (toolbarData e)] \<and>
         (failLoad w \<longrightarrow>
            \<not> failLoad (fst (step e w DidFinishLoad)) \<and>
            finishCalls (snd (step e w DidFinishLoad)) = [])"
  using assms did_finish_load_after_failure [of w e]
  by (simp add: did_finish_load_def showToolbarEffects_def settled_def andThen_def)

theorem toolbar_created_on_every_finish_witness:
  "truthy_bool (showToolbar (options
     (exampleWindow ((exampleOptions ''viewer'')\<lparr>showToolbar := Some True\<rparr>)\<lparr>failLoad := True\<rparr>))) \<and>
   failLoad (exampleWindow ((exampleOptions ''viewer'')\<lparr>showToolbar := Some True\<rparr>)
     \<lparr>failLoad := True\<rparr>) \<and>
   take 1 (snd (step exampleEnv
     (exampleWindow ((exampleOptions ''viewer'')\<lparr>showToolbar := Some True\<rparr>)\<lparr>failLoad := True\<rparr>)
     DidFinishLoad)) = [CreateAndShowToolbar (toolbarData exampleEnv)] \<and>
   finishCalls (snd (step exampleEnv
     (exampleWindow ((exampleOptions ''viewer'')\<lparr>showToolbar := Some True\<rparr>)\<lparr>failLoad := True\<rparr>)
     DidFinishLoad)) = []"
proof -
  let ?w = "exampleWindow ((exampleOptions ''viewer'')\<lparr>showToolbar := Some True\<rparr>)
     \<lparr>failLoad := True\<rparr>"
  have 1: "truthy_bool (showToolbar (options ?w))"
    by (simp add: example_simps)
  have 2: "failLoad ?w"
    by simp
  show ?thesis
    using 1 2 toolbar_created_on_every_finish [OF 1, of exampleEnv] by simp
qed

section \<open>New-window requests\<close>

text \<open>
  C6. When the wrapper has a base URL (the option is present and not the empty string,
  which is what the handler's test accepts) and the request's disposition is
  \<open>foreground-tab\<close> or \<open>background-tab\<close>, the handler asks the shell to open the
  requested URL externally, does not consult the window-opening arbitration, and answers
  \<open>deny\<close>. In every other case it makes the one call to the arbitration and returns its
  answer.
\<close>

theorem window_open_tab_goes_external:
  "(truthy_string (baseUrl (options w)) \<and>
      (disposition d = ''foreground-tab'' \<or> disposition d = ''background-tab'') \<longrightarrow>
        fst (windowOpenHandler e w d) = Deny \<and>
        externalOpens (snd (windowOpenHandler e w d)) = [url d] \<and>
        CallWindowOpening \<notin> set (snd (windowOpenHandler e w d))) \<and>
   (\<not> (truthy_string (baseUrl (options w)) \<and>
      (disposition d = ''foreground-tab'' \<or> disposition d = ''background-tab'')) \<longrightarrow>
        windowOpenHandler e w d = (windowOpening e, [CallWindowOpening]))"
  by (simp add: windowOpenHandler_def void_trace)

theorem window_open_tab_goes_external_witness:
  "truthy_string (baseUrl (options
     (exampleWindow ((exampleOptions ''main'')\<lparr>baseUrl := Some ''http://127.0.0.1:8787/''\<rparr>)))) \<and>
   windowOpenHandler exampleEnv
     (exampleWindow ((exampleOptions ''main'')\<lparr>baseUrl := Some ''http://127.0.0.1:8787/''\<rparr>))
     \<lparr>url = ''https://example.com/docs'', disposition = ''foreground-tab''\<rparr> =
       (Deny, [OpenExternal ''https://example.com/docs'']) \<and>
   windowOpenHandler exampleEnv
     (exampleWindow ((exampleOptions ''main'')\<lparr>baseUrl := Some ''http://127.0.0.1:8787/''\<rparr>))
     \<lparr>url = ''https://example.com/docs'', disposition = ''new-window''\<rparr> =
       (Allow 0, [CallWindowOpening]) \<and>
   \<not> truthy_string (baseUrl (options (exampleWindow (exampleOptions ''main'')))) \<and>
   windowOpenHandler exampleEnv (exampleWindow (exampleOptions ''main''))
     \<lparr>url = ''https://example.com/docs'', disposition = ''foreground-tab''\<rparr> =
       (Allow 0, [CallWindowOpening])"
proof -
  let ?w = "exampleWindow ((exampleOptions ''main'')\<lparr>baseUrl := Some ''http://127.0.0.1:8787/''\<rparr>)"
  let ?v = "exampleWindow (exampleOptions ''main'')"
  let ?tab = "\<lparr>url = ''https://example.com/docs'', disposition = ''foreground-tab''\<rparr>"
  let ?new = "\<lparr>url = ''https://example.com/docs'', disposition = ''new-window''\<rparr>"
  have 1: "truthy_string (baseUrl (options ?w))"
    by (simp add: example_simps)
  have 2: "\<not> truthy_string (baseUrl (options ?v))"
    by (simp add: example_simps)
  have 3: "windowOpening exampleEnv = Allow 0"
    by (simp add: example_simps)
  have 4: "snd (windowOpenHandler exampleEnv ?w ?tab) = [OpenExternal ''https://example.com/docs'']"
    using 1 by (simp add: windowOpenHandler_def exampleEnv_def)
  show ?thesis
    using 1 2 3
      window_open_tab_goes_external [of ?w ?tab exampleEnv]
      window_open_tab_goes_external [of ?w ?new exampleEnv]
      window_open_tab_goes_external [of ?v ?tab exampleEnv]
    by (simp add: 4 prod_eq_iff)
qed

section \<open>Title synchronisation\<close>

text \<open>
  C9. On a title-update event: when \<open>adjustTitle\<close> is not set, the handler makes no call
  and the chrome title stays what it was, whether the update was explicit or not; when
  \<open>adjustTitle\<close> is set, an explicit update sets the chrome title to the page's title,
  and an update that is not explicit makes no call and leaves the chrome title as it was.
\<close>

theorem title_update_mirrors_explicit_only:
  "(\<not> truthy_bool (adjustTitle (options w)) \<longrightarrow>
      snd (step e w (PageTitleUpdated t x)) = [] \<and>
      chromeTitle t0 (snd (step e w (PageTitleUpdated t x))) = t0) \<and>
   (truthy_bool (adjustTitle (options w)) \<and> x \<longrightarrow>
      snd (step e w (PageTitleUpdated t x)) = [SetTitle t] \<and>
      chromeTitle t0 (snd (step e w (PageTitleUpdated t x))) = t) \<and>
   (truthy_bool (adjustTitle (options w)) \<and> \<not> x \<longrightarrow>
      snd (step e w (PageTitleUpdated t x)) = [] \<and>
      chromeTitle t0 (snd (step e w (PageTitleUpdated t x))) = t0)"
  by (simp add: adjustWindowTitle_def)

theorem title_update_mirrors_explicit_only_witness:
  "\<not> truthy_bool (adjustTitle (options (exampleWindow (exampleOptions ''viewer'')))) \<and>
   chromeTitle ''RStudio''
     (snd (step exampleEnv (exampleWindow (exampleOptions ''viewer''))
        (PageTitleUpdated ''Help'' True))) = ''RStudio'' \<and>
   chromeTitle ''RStudio''
     (snd (step exampleEnv (exampleWindow (exampleOptions ''viewer''))
        (PageTitleUpdated ''Help'' False))) = ''RStudio'' \<and>
   truthy_bool (adjustTitle (options
     (exampleWindow ((exampleOptions ''viewer'')\<lparr>adjustTitle := Some True\<rparr>)))) \<and>
   chromeTitle ''RStudio''
     (snd (step exampleEnv (exampleWindow ((exampleOptions ''viewer'')\<lparr>adjustTitle := Some True\<rparr>))
        (PageTitleUpdated ''Help'' True))) = ''Help'' \<and>
   chromeTitle ''RStudio''
     (snd (step exampleEnv (exampleWindow ((exampleOptions ''viewer'')\<lparr>adjustTitle := Some True\<rparr>))
        (PageTitleUpdated ''Help'' False))) = ''RStudio''"
proof -
  let ?v = "exampleWindow (exampleOptions ''viewer'')"
  let ?w = "exampleWindow ((exampleOptions ''viewer'')\<lparr>adjustTitle := Some True\<rparr>)"
  have 1: "\<not> truthy_bool (adjustTitle (options ?v))"
    by (simp add: example_simps)
  have 2: "truthy_bool (adjustTitle (options ?w))"
    by (simp add: example_simps)
  show ?thesis
    using 1 2
      title_update_mirrors_explicit_only [of ?v exampleEnv "''Help''" True "''RStudio''"]
      title_update_mirrors_explicit_only [of ?v exampleEnv "''Help''" False "''RStudio''"]
      title_update_mirrors_explicit_only [of ?w exampleEnv "''Help''" True "''RStudio''"]
      title_update_mirrors_explicit_only [of ?w exampleEnv "''Help''" False "''RStudio''"]
    by simp
qed

section \<open>Closing\<close>

text \<open>
  C7. For a wrapper constructed with a name that contains \<open>satellite\<close>, after any
  sequence of events: a close event makes no call at all and leaves the wrapper as it
  is, and neither of the two unregister scripts has been injected by any event so far.
\<close>

theorem satellite_close_injects_nothing:
  assumes "includes_str (name opts) ''satellite''"
  shows "let w0 = fst (constructor e0 opts);
             (w, tr) = run w0 evs
         in step e w Close = (w, []) \<and>
            unregisterViaOpenerCmd (name opts) \<notin> set (injectedScripts tr) \<and>
            unregisterCmd (name opts) \<notin> set (injectedScripts tr)"
proof -
  define w0 where "w0 = fst (constructor e0 opts)"
  have l0: "\<not> closeListener w0" and n0: "name (options w0) = name opts"
    using constructor_fields [of e0 opts] defaults_keeps [of opts] assms
    by (simp_all add: w0_def)
  have l: "\<not> closeListener (fst (run w0 evs))"
    using run_keeps [of w0 evs] l0 by simp
  have s: "set (injectedScripts (snd (run w0 evs))) \<subseteq> {registerCmd (name opts)}"
    using run_scripts_no_listener [OF l0, of evs] n0 by simp
  have "unregisterViaOpenerCmd (name opts) \<notin> set (injectedScripts (snd (run w0 evs)))"
    "unregisterCmd (name opts) \<notin> set (injectedScripts (snd (run w0 evs)))"
    using s registerCmd_neq [of "name opts" "name opts"] by auto
  with l show ?thesis
    unfolding w0_def [symmetric] by (simp add: Let_def split_beta)
qed

theorem satellite_close_injects_nothing_witness:
  "includes_str (name (exampleOptions ''_rstudio_satellite_plots'')) ''satellite'' \<and>
   (let w0 = fst (constructor exampleEnv (exampleOptions ''_rstudio_satellite_plots''));
        (w, tr) = run w0 [(exampleEnv, DidFinishLoad), (exampleEnv, Close)]
    in step exampleEnv w Close = (w, []) \<and>
       unregisterViaOpenerCmd (name (exampleOptions ''_rstudio_satellite_plots''))
         \<notin> set (injectedScripts tr) \<and>
       unregisterCmd (name (exampleOptions ''_rstudio_satellite_plots''))
         \<notin> set (injectedScripts tr))"
proof -
  have h: "includes_str (name (exampleOptions ''_rstudio_satellite_plots'')) ''satellite''"
    by (simp add: exampleOptions_def)
  show ?thesis
    by (rule conjI [OF h satellite_close_injects_nothing [OF h]])
qed

text \<open>
  C8. For a wrapper constructed with a name that does not contain \<open>satellite\<close>, after
  any sequence of events, a close event injects exactly one script, whose text is given
  in full. With no opener in the options it is the statement
  \<open>if (window.opener && window.opener.unregisterDesktopChildWindow)\<close> followed, on the
  next line, by the call \<open>window.opener.unregisterDesktopChildWindow('NAME');\<close> with the
  window's name for NAME; with an opener it is
  \<open>if (window.unregisterDesktopChildWindow)\<close> followed by the call
  \<open>window.unregisterDesktopChildWindow('NAME');\<close>. If the injection is rejected, the
  reason is logged; no rejection is left unhandled, the handler never calls
  \<open>preventDefault\<close> (so the close goes on), and the wrapper is unchanged.
\<close>

theorem close_injects_unregister_script:
  assumes "\<not> includes_str (name opts) ''satellite''"
  shows "let w0 = fst (constructor e0 opts);
             w = fst (run w0 evs);
             cmd = (if opener opts = None
                    then ''if (window.opener && window.opener.unregisterDesktopChildWindow)'' @
                         [CHR 0x0A] @
                         ''           window.opener.unregisterDesktopChildWindow('' @
                         [CHR 0x27] @ name opts @ [CHR 0x27] @ '');''
                    else ''if (window.unregisterDesktopChildWindow)'' @
                         [CHR 0x0A] @
                         ''           window.unregisterDesktopChildWindow('' @
                         [CHR 0x27] @ name opts @ [CHR 0x27] @ '');'');
             (w', tr) = step e w Close
         in w' = w \<and>
            injectedScripts tr = [cmd] \<and>
            (\<forall>err. executeJavaScript e cmd = Rejected err \<longrightarrow> LogError err \<in> set tr) \<and>
            PreventDefault \<notin> set tr \<and>
            (\<forall>err. UnhandledRejection err \<notin> set tr)"
proof -
  define w0 where "w0 = fst (constructor e0 opts)"
  define w where "w = fst (run w0 evs)"
  define cmd where "cmd = (if opener opts = None
                    then ''if (window.opener && window.opener.unregisterDesktopChildWindow)'' @
                         [CHR 0x0A] @
                         ''           window.opener.unregisterDesktopChildWindow('' @
                         [CHR 0x27] @ name opts @ [CHR 0x27] @ '');''
                    else ''if (window.unregisterDesktopChildWindow)'' @
                         [CHR 0x0A] @
                         ''           window.unregisterDesktopChildWindow('' @
                         [CHR 0x27] @ name opts @ [CHR 0x27] @ '');'')"
  have script: "cmd = (if opener opts = None then unregisterViaOpenerCmd (name opts)
                    else unregisterCmd (name opts))"
    by (simp add: cmd_def unregisterViaOpenerCmd_def unregisterCmd_def newline_def spaces_def
        quote_def eval_nat_numeral)
  have "closeListener w0" "name (options w0) = name opts" "opener (options w0) = opener opts"
    using constructor_fields [of e0 opts] defaults_keeps [of opts] assms
    by (simp_all add: w0_def)
  then have w: "closeListener w" "name (options w) = name opts"
    "opener (options w) = opener opts"
    using run_keeps [of w0 evs] by (simp_all add: w_def)
  have "snd (step e w Close) = settled (inject e cmd)"
    using w by (cases "opener opts") (simp_all add: closeEvent_def script)
  then show ?thesis
    using inject_trace [of e cmd]
    unfolding w0_def [symmetric] w_def [symmetric] cmd_def [symmetric] Let_def
    by (simp add: split_beta settled_def injectedScripts_append)
qed

theorem close_injects_unregister_script_witness:
  "\<not> includes_str (name (exampleOptions ''viewer'')) ''satellite'' \<and>
   \<not> includes_str (name ((exampleOptions ''viewer'')\<lparr>opener := Some 7\<rparr>)) ''satellite'' \<and>
   snd (step exampleEnv
     (fst (run (fst (constructor exampleEnv (exampleOptions ''viewer'')))
        [(exampleEnv, DidFinishLoad)])) Close) =
     [ExecuteJavaScript
        (''if (window.opener && window.opener.unregisterDesktopChildWindow)'' @ [CHR 0x0A] @
         ''           window.opener.unregisterDesktopChildWindow('' @ [CHR 0x27] @
         ''viewer'' @ [CHR 0x27] @ '');''),
      LogError ''Error: Object has been destroyed''] \<and>
   snd (step exampleEnv
     (fst (run (fst (constructor exampleEnv ((exampleOptions ''viewer'')\<lparr>opener := Some 7\<rparr>)))
        [(exampleEnv, DidFinishLoad)])) Close) =
     [ExecuteJavaScript
        (''if (window.unregisterDesktopChildWindow)'' @ [CHR 0x0A] @
         ''           window.unregisterDesktopChildWindow('' @ [CHR 0x27] @
         ''viewer'' @ [CHR 0x27] @ '');''),
      LogError ''Error: Object has been destroyed'']"
proof -
  let ?o = "exampleOptions ''viewer''"
  let ?p = "(exampleOptions ''viewer'')\<lparr>opener := Some 7\<rparr>"
  let ?evs = "[(exampleEnv, DidFinishLoad)]"
  have 1: "\<not> includes_str (name ?o) ''satellite''"
    by (simp add: exampleOptions_def)
  have 2: "\<not> includes_str (name ?p) ''satellite''"
    by (simp add: exampleOptions_def)
  have k: "closeListener (fst (run (fst (constructor exampleEnv opts)) ?evs)) =
        (\<not> includes_str (name opts) ''satellite'') \<and>
      options (fst (run (fst (constructor exampleEnv opts)) ?evs)) = defaults opts" for opts
    using run_keeps [of "fst (constructor exampleEnv opts)" ?evs]
      constructor_fields [of exampleEnv opts]
    by simp
  have 3: "snd (step exampleEnv (fst (run (fst (constructor exampleEnv ?o)) ?evs)) Close) =
      [ExecuteJavaScript (unregisterViaOpenerCmd ''viewer''),
       LogError ''Error: Object has been destroyed'']"
    using 1 k [of ?o]
    by (simp add: closeEvent_def inject_def settled_def defaults_def exampleOptions_def
        exampleEnv_def)
  have 4: "snd (step exampleEnv (fst (run (fst (constructor exampleEnv ?p)) ?evs)) Close) =
      [ExecuteJavaScript (unregisterCmd ''viewer''),
       LogError ''Error: Object has been destroyed'']"
    using 2 k [of ?p]
    by (simp add: closeEvent_def inject_def settled_def defaults_def exampleOptions_def
        exampleEnv_def)
  have 5: "unregisterViaOpenerCmd ''viewer'' =
      ''if (window.opener && window.opener.unregisterDesktopChildWindow)'' @ [CHR 0x0A] @
      ''           window.opener.unregisterDesktopChildWindow('' @ [CHR 0x27] @
      ''viewer'' @ [CHR 0x27] @ '');''"
    "unregisterCmd ''viewer'' =
      ''if (window.unregisterDesktopChildWindow)'' @ [CHR 0x0A] @
      ''           window.unregisterDesktopChildWindow('' @ [CHR 0x27] @
      ''viewer'' @ [CHR 0x27] @ '');''"
    by (simp_all add: unregisterViaOpenerCmd_def unregisterCmd_def newline_def spaces_def
        quote_def eval_nat_numeral)
  show ?thesis
    using 1 2
      close_injects_unregister_script [OF 1, of exampleEnv ?evs exampleEnv]
      close_injects_unregister_script [OF 2, of exampleEnv ?evs exampleEnv]
    unfolding 3 4 5 by simp
qed

end
